theory Spec2Isabelle
  imports Complex_Main
begin

section \<open>Windowed rendering hooks: the linear list\<close>

text \<open>
  The hooks of the virtualization module compute, from a scroll offset and the sizes of
  the items, the window of items to render. Pixel quantities are JavaScript numbers; they
  are modelled as rationals (exact arithmetic, no rounding), indices and counts as
  integers. A value that may be \<open>undefined\<close> is an \<open>option\<close>.
\<close>

subsection \<open>Array helpers\<close>

text \<open>\<open>Array.prototype.slice(begin, end)\<close>: a negative bound counts from the end of the
  array, and both bounds are clamped into the array.\<close>

definition slice :: "int \<Rightarrow> int \<Rightarrow> 'a list \<Rightarrow> 'a list" where
  "slice b e xs =
     (let n = int (length xs);
          from = (if b < 0 then max (n + b) 0 else min b n);
          to = (if e < 0 then max (n + e) 0 else min e n)
      in take (nat (to - from)) (drop (nat from) xs))"

text \<open>\<open>xs.reduce((sum, height) => sum + height, 0)\<close>.\<close>

definition reduce_sum :: "rat list \<Rightarrow> rat" where
  "reduce_sum xs = foldl (\<lambda>sum height. sum + height) 0 xs"

text \<open>\<open>v || d\<close> on a number that may be undefined: \<open>undefined\<close> and \<open>0\<close> are falsy.\<close>

definition or_else :: "rat option \<Rightarrow> rat \<Rightarrow> rat" where
  "or_else v d = (case v of None \<Rightarrow> d | Some x \<Rightarrow> if x = 0 then d else x)"

subsection \<open>useVirtualization\<close>

text \<open>The options object of the hook. \<open>itemHeight\<close> is \<open>Some h\<close> when
  \<open>typeof itemHeight === 'number'\<close>; \<open>getItemHeight\<close> is \<open>Some g\<close> when a sizing function
  was passed.\<close>

record 'a virtualization_options =
  items :: "'a list"
  itemHeight :: "rat option"
  containerHeight :: rat
  overscan :: int
  getItemHeight :: "('a \<Rightarrow> nat \<Rightarrow> rat) option"
  estimatedItemHeight :: rat

text \<open>The defaults of the destructured parameters.\<close>

definition default_overscan :: int where
  "default_overscan = 5"

definition default_estimatedItemHeight :: rat where
  "default_estimatedItemHeight = 50"

text \<open>The two pieces of hook state: the scroll offset and the map of measured heights.\<close>

record virtualization_state =
  scrollTop :: rat
  heights :: "nat \<rightharpoonup> rat"

definition initial_state :: virtualization_state where
  "initial_state = \<lparr>scrollTop = 0, heights = Map.empty\<rparr>"

text \<open>The memoized array of item heights: a uniform \<open>itemHeight\<close> first, else the sizing
  function, else the measured height or the estimate.\<close>

definition itemHeights ::
  "'a list \<Rightarrow> rat option \<Rightarrow> ('a \<Rightarrow> nat \<Rightarrow> rat) option \<Rightarrow> (nat \<rightharpoonup> rat) \<Rightarrow> rat \<Rightarrow> rat list" where
  "itemHeights its ih gih hs est =
     (case ih of
        Some h \<Rightarrow> map (\<lambda>_. h) its
      | None \<Rightarrow>
          (case gih of
             Some g \<Rightarrow> map (\<lambda>(item, index). g item index) (zip its [0..<length its])
           | None \<Rightarrow> map (\<lambda>index. or_else (hs index) est) [0..<length its]))"

definition totalHeight :: "rat list \<Rightarrow> rat" where
  "totalHeight ihs = reduce_sum ihs"

text \<open>The first loop of \<open>visibleRange\<close>: \<open>start\<close> is assigned at the first index whose
  trailing edge is beyond the scroll offset; when the loop ends without a break,
  \<open>start\<close> keeps its initial value 0.\<close>

fun findStart :: "rat list \<Rightarrow> rat \<Rightarrow> int \<Rightarrow> nat \<Rightarrow> rat \<Rightarrow> int" where
  "findStart [] st ov i accumulatedHeight = 0"
| "findStart (h # rest) st ov i accumulatedHeight =
     (if accumulatedHeight + h > st then max 0 (int i - ov)
      else findStart rest st ov (Suc i) (accumulatedHeight + h))"

text \<open>The second loop: from index \<open>i\<close> on, \<open>end\<close> follows \<open>i\<close> until the accumulated height
  passes the limit \<open>scrollTop + containerHeight + overscan * estimatedItemHeight\<close>.\<close>

fun findEnd :: "rat list \<Rightarrow> rat \<Rightarrow> nat \<Rightarrow> int \<Rightarrow> rat \<Rightarrow> int" where
  "findEnd [] limit i e accumulatedHeight = e"
| "findEnd (h # rest) limit i e accumulatedHeight =
     (if accumulatedHeight > limit then e
      else findEnd rest limit (Suc i) (int i) (accumulatedHeight + h))"

record visible_range =
  range_start :: int
  range_end :: int

definition visibleRange :: "rat \<Rightarrow> rat \<Rightarrow> rat list \<Rightarrow> int \<Rightarrow> rat \<Rightarrow> nat \<Rightarrow> visible_range" where
  "visibleRange st ch ihs ov est items_length =
     (let start = findStart ihs st ov 0 0;
          accumulatedHeight = reduce_sum (slice 0 start ihs);
          e = findEnd (drop (nat start) ihs) (st + ch + of_int ov * est) (nat start) start
                accumulatedHeight
      in \<lparr>range_start = start, range_end = min (e + ov) (int items_length - 1)\<rparr>)"

definition offsetY :: "rat list \<Rightarrow> int \<Rightarrow> rat" where
  "offsetY ihs start = reduce_sum (slice 0 start ihs)"

definition visibleItems :: "'a list \<Rightarrow> visible_range \<Rightarrow> ('a \<times> int) list" where
  "visibleItems its r =
     (let shown = slice (range_start r) (range_end r + 1) its
      in map (\<lambda>(item, index). (item, range_start r + int index)) (zip shown [0..<length shown]))"

text \<open>\<open>measureItem(index, element)\<close>: nothing happens for a null element; otherwise the
  height of the element's bounding box is stored under \<open>index\<close>. The element is
  represented by that height.\<close>

definition measureItem :: "nat \<Rightarrow> rat option \<Rightarrow> virtualization_state \<Rightarrow> virtualization_state" where
  "measureItem index element s =
     (case element of
        None \<Rightarrow> s
      | Some height \<Rightarrow> s\<lparr>heights := (heights s)(index \<mapsto> height)\<rparr>)"

text \<open>The scroll handler stores the scroll offset of the event's target.\<close>

definition handleScroll :: "rat \<Rightarrow> virtualization_state \<Rightarrow> virtualization_state" where
  "handleScroll target_scrollTop s = s\<lparr>scrollTop := target_scrollTop\<rparr>"

text \<open>What one render of the hook returns (the callbacks and the ref apart).\<close>

record 'a virtualization_result =
  res_visibleItems :: "('a \<times> int) list"
  res_totalHeight :: rat
  res_offsetY :: rat
  res_visibleRange :: visible_range

definition hook_itemHeights :: "'a virtualization_options \<Rightarrow> virtualization_state \<Rightarrow> rat list" where
  "hook_itemHeights opts s =
     itemHeights (items opts) (itemHeight opts) (getItemHeight opts) (heights s)
       (estimatedItemHeight opts)"

definition useVirtualization ::
  "'a virtualization_options \<Rightarrow> virtualization_state \<Rightarrow> 'a virtualization_result" where
  "useVirtualization opts s =
     (let ihs = hook_itemHeights opts s;
          r = visibleRange (scrollTop s) (containerHeight opts) ihs (overscan opts)
                (estimatedItemHeight opts) (length (items opts))
      in \<lparr>res_visibleItems = visibleItems (items opts) r,
          res_totalHeight = totalHeight ihs,
          res_offsetY = offsetY ihs (range_start r),
          res_visibleRange = r\<rparr>)"

section \<open>useInfiniteVirtualization: loading more items\<close>

text \<open>The dependency array of the effect. \<open>fetchNextPage\<close> is the identity of the callback
  that was passed, \<open>None\<close> when there is none.\<close>

record load_deps =
  hasNextPage :: bool
  isFetchingNextPage :: bool
  items_length :: nat
  visibleRange_end :: int
  loadMoreThreshold :: int
  fetchNextPage :: "nat option"

definition default_loadMoreThreshold :: int where
  "default_loadMoreThreshold = 5"

definition shouldLoadMore :: "load_deps \<Rightarrow> bool" where
  "shouldLoadMore d =
     (hasNextPage d \<and> \<not> isFetchingNextPage d \<and>
      int (items_length d) - visibleRange_end d \<le> loadMoreThreshold d)"

text \<open>One run of the effect body: the list of callbacks it invokes.\<close>

definition loadMoreEffect :: "load_deps \<Rightarrow> nat list" where
  "loadMoreEffect d =
     (if shouldLoadMore d
      then (case fetchNextPage d of Some f \<Rightarrow> [f] | None \<Rightarrow> [])
      else [])"

text \<open>\<open>useEffect\<close> over a sequence of renders: the body runs after the first render and
  after every render whose dependencies differ from those of the render before. The
  result is the log of callback invocations.\<close>

fun runEffects :: "load_deps option \<Rightarrow> load_deps list \<Rightarrow> nat list" where
  "runEffects prev [] = []"
| "runEffects prev (d # ds) =
     (if prev = Some d then [] else loadMoreEffect d) @ runEffects (Some d) ds"

section \<open>Numbers that are not finite\<close>

text \<open>Division by zero and reads of absent properties leave the finite numbers: the
  results are the infinities, \<open>NaN\<close> and \<open>undefined\<close>.\<close>

datatype jsnum = Num rat | PosInf | NegInf | NaN | Undefined

definition js_div :: "rat \<Rightarrow> rat \<Rightarrow> jsnum" where
  "js_div a b =
     (if b \<noteq> 0 then Num (a / b)
      else if a > 0 then PosInf else if a < 0 then NegInf else NaN)"

fun math_floor :: "jsnum \<Rightarrow> jsnum" where
  "math_floor (Num q) = Num (of_int \<lfloor>q\<rfloor>)"
| "math_floor PosInf = PosInf"
| "math_floor NegInf = NegInf"
| "math_floor NaN = NaN"
| "math_floor Undefined = NaN"

text \<open>\<open>v + r\<close> for a finite \<open>r\<close>.\<close>

fun js_add :: "jsnum \<Rightarrow> rat \<Rightarrow> jsnum" where
  "js_add (Num a) r = Num (a + r)"
| "js_add PosInf r = PosInf"
| "js_add NegInf r = NegInf"
| "js_add NaN r = NaN"
| "js_add Undefined r = NaN"

fun js_max2 :: "jsnum \<Rightarrow> jsnum \<Rightarrow> jsnum" where
  "js_max2 NaN b = NaN"
| "js_max2 Undefined b = NaN"
| "js_max2 a NaN = NaN"
| "js_max2 a Undefined = NaN"
| "js_max2 PosInf b = PosInf"
| "js_max2 a PosInf = PosInf"
| "js_max2 NegInf b = b"
| "js_max2 a NegInf = a"
| "js_max2 (Num a) (Num b) = Num (max a b)"

text \<open>\<open>Math.max(...xs)\<close>; it is \<open>-Infinity\<close> for no argument.\<close>

definition math_max :: "jsnum list \<Rightarrow> jsnum" where
  "math_max xs = fold (\<lambda>x m. js_max2 m x) xs NegInf"




section \<open>Column counts of the grid and of the masonry layout\<close>

text \<open>\<open>cols\<close> of \<open>gridDimensions\<close>: \<open>columns || Math.floor(...)\<close>. An explicit \<open>columns\<close> is
  taken when it is truthy, that is defined and not 0.\<close>

definition gridDimensions_cols :: "rat option \<Rightarrow> rat \<Rightarrow> rat \<Rightarrow> rat \<Rightarrow> jsnum" where
  "gridDimensions_cols cols_opt containerWidth itemWidth gap =
     (case cols_opt of
        Some c \<Rightarrow> if c \<noteq> 0 then Num c
                  else math_floor (js_div (containerWidth + gap) (itemWidth + gap))
      | None \<Rightarrow> math_floor (js_div (containerWidth + gap) (itemWidth + gap)))"

definition columns :: "rat \<Rightarrow> rat \<Rightarrow> rat \<Rightarrow> jsnum" where
  "columns containerWidth columnWidth gap =
     math_floor (js_div (containerWidth + gap) (columnWidth + gap))"

section \<open>useMasonryVirtualization\<close>

datatype error = RangeError | ReferenceError string





record position =
  pos_x :: rat
  pos_y :: jsnum
  pos_height :: rat





definition masonry_totalHeight :: "position list \<Rightarrow> jsnum" where
  "masonry_totalHeight positions =
     (if length positions = 0 then Num 0
      else math_max (map (\<lambda>pos. js_add (pos_y pos) (pos_height pos)) positions))"

text \<open>The predicate of the filter of \<open>visibleItems\<close>, on the fields that the spread of
  \<open>positions[index]\<close> gave the object (\<open>None\<close> when the index is beyond the array, so
  that the spread adds no field). An item whose \<open>y\<close> is
  not a number is dropped; the margin is \<open>overscan * 100\<close>.\<close>

definition inView :: "rat \<Rightarrow> rat \<Rightarrow> int \<Rightarrow> position option \<Rightarrow> bool" where
  "inView st containerBottom ov p =
     (case p of
        None \<Rightarrow> False
      | Some pos \<Rightarrow>
          (case pos_y pos of
             Num y \<Rightarrow>
               y + pos_height pos \<ge> st - of_int ov * 100 \<and>
               y \<le> containerBottom + of_int ov * 100
           | _ \<Rightarrow> False))"

definition position_at :: "position list \<Rightarrow> nat \<Rightarrow> position option" where
  "position_at positions index =
     (if index < length positions then Some (positions ! index) else None)"

text \<open>The identifiers a function body can read beyond its own parameters and locals,
  with their numeric values.\<close>

type_synonym scope = "string \<rightharpoonup> rat"

text \<open>The parameters of \<open>useMasonryVirtualization\<close> are \<open>items\<close>, \<open>columnWidth\<close>,
  \<open>containerWidth\<close>, \<open>getItemHeight\<close>, \<open>gap\<close> and \<open>overscan\<close>. The body of \<open>visibleItems\<close>
  reads \<open>containerHeight\<close>, which is none of them: it is looked up in the enclosing
  scope, and reading an identifier with no binding throws a ReferenceError.\<close>

definition masonry_visibleItems ::
  "scope \<Rightarrow> 'a list \<Rightarrow> position list \<Rightarrow> rat \<Rightarrow> int \<Rightarrow>
   error + ('a \<times> nat \<times> position option) list" where
  "masonry_visibleItems outer its positions st ov =
     (case outer ''containerHeight'' of
        None \<Rightarrow> Inl (ReferenceError ''containerHeight'')
      | Some ch \<Rightarrow>
          (let containerBottom = st + ch
           in Inr (filter (\<lambda>(item, index, p). inView st containerBottom ov p)
                (map (\<lambda>(item, index). (item, index, position_at positions index))
                   (zip its [0..<length its])))))"

text \<open>The module binds the React hooks, \<open>throttle\<close> and its own four exported functions;
  no number is bound at module level.\<close>

definition module_scope :: scope where
  "module_scope = Map.empty"

text \<open>One render of the hook with the positions held in its state: the memoized values
  are computed during the render, so an exception of one of them is the outcome of the
  render.\<close>

record 'a masonry_result =
  m_visibleItems :: "('a \<times> nat \<times> position option) list"
  m_totalHeight :: jsnum
  m_columns :: jsnum

definition useMasonryVirtualization ::
  "scope \<Rightarrow> 'a list \<Rightarrow> rat \<Rightarrow> rat \<Rightarrow> rat \<Rightarrow> int \<Rightarrow> rat \<Rightarrow> position list \<Rightarrow> error + 'a masonry_result" where
  "useMasonryVirtualization outer its columnWidth containerWidth gap ov st positions =
     (case masonry_visibleItems outer its positions st ov of
        Inl e \<Rightarrow> Inl e
      | Inr vis \<Rightarrow>
          Inr \<lparr>m_visibleItems = vis,
               m_totalHeight = masonry_totalHeight positions,
               m_columns = columns containerWidth columnWidth gap\<rparr>)"


section \<open>Example inputs\<close>

text \<open>The scenario of 1000 uniform items of height 50 in a viewport of height 500, with
  the default overscan and the default estimate.\<close>

definition scenario_options :: "unit virtualization_options" where
  "scenario_options =
     \<lparr>items = replicate 1000 (), itemHeight = Some 50, containerHeight = 500,
      overscan = default_overscan, getItemHeight = None,
      estimatedItemHeight = default_estimatedItemHeight\<rparr>"

text \<open>One item of a uniform height.\<close>

definition uniform_options :: "rat \<Rightarrow> unit virtualization_options" where
  "uniform_options h =
     \<lparr>items = [()], itemHeight = Some h, containerHeight = 500,
      overscan = default_overscan, getItemHeight = None,
      estimatedItemHeight = default_estimatedItemHeight\<rparr>"

text \<open>Three items of the uniform height 50, with no overscan.\<close>

definition three_uniform :: "unit virtualization_options" where
  "three_uniform =
     \<lparr>items = [(), (), ()], itemHeight = Some 50, containerHeight = 100,
      overscan = 0, getItemHeight = None, estimatedItemHeight = 50\<rparr>"

text \<open>Three items whose heights are measured, with an estimate of 50.\<close>

definition measured_options :: "unit virtualization_options" where
  "measured_options =
     \<lparr>items = [(), (), ()], itemHeight = None, containerHeight = 100,
      overscan = 0, getItemHeight = None, estimatedItemHeight = 50\<rparr>"

text \<open>The dependencies of the load-more effect four items before the end of 100 items.\<close>

definition near_end :: "nat \<Rightarrow> load_deps" where
  "near_end f = \<lparr>hasNextPage = True, isFetchingNextPage = False, items_length = 100,
     visibleRange_end = 96, loadMoreThreshold = 5, fetchNextPage = Some f\<rparr>"




section \<open>Properties of the linear list\<close>

subsection \<open>Sums and slices\<close>

lemma foldl_add_sum_list: "foldl (\<lambda>sum height. sum + height) a xs = a + sum_list xs"
  for a :: rat
  by (induction xs arbitrary: a) (simp_all add: add.assoc)

lemma reduce_sum_sum_list: "reduce_sum xs = sum_list xs"
  by (simp add: reduce_sum_def foldl_add_sum_list)

lemma slice_0_take: "0 \<le> n \<Longrightarrow> slice 0 n xs = take (nat n) xs"
  by (simp add: slice_def Let_def min_def)

lemma itemHeights_length: "length (itemHeights its ih gih hs est) = length its"
  by (simp add: itemHeights_def split: option.splits)

subsection \<open>The uniform scenario\<close>

lemma uniform_range:
  "visibleRange 1000 500 (replicate 1000 50) 5 50 1000 = \<lparr>range_start = 15, range_end = 40\<rparr>"
  by code_simp

text \<open>
  Claim C1, as the code has it. With 1000 items of uniform height 50, a container height
  of 500, an overscan of 5, the default estimate of 50 and a scroll offset of 1000, the
  visible range starts at 15 and ends at 40: the second loop runs on until the accumulated
  height passes \<open>scrollTop + containerHeight + overscan * estimatedItemHeight = 1750\<close>,
  which leaves \<open>end = 35\<close>, and the returned end is \<open>min (35 + overscan) 999 = 40\<close>.
\<close>

theorem uniform_scenario_range:
  assumes "length (items opts) = 1000" and "itemHeight opts = Some 50"
    and "containerHeight opts = 500" and "overscan opts = 5"
    and "estimatedItemHeight opts = 50" and "scrollTop s = 1000"
  shows "res_visibleRange (useVirtualization opts s) = \<lparr>range_start = 15, range_end = 40\<rparr>"
proof -
  have "hook_itemHeights opts s = replicate 1000 50"
    using assms(1,2) by (simp add: hook_itemHeights_def itemHeights_def map_replicate_const)
  then show ?thesis
    using assms by (simp add: useVirtualization_def Let_def uniform_range)
qed

theorem uniform_scenario_range_witness:
  "res_visibleRange (useVirtualization scenario_options (handleScroll 1000 initial_state)) =
     \<lparr>range_start = 15, range_end = 40\<rparr>"
  using uniform_scenario_range [of scenario_options "handleScroll 1000 initial_state"]
  by (simp add: scenario_options_def handleScroll_def initial_state_def default_overscan_def
      default_estimatedItemHeight_def)

text \<open>The range of the scenario is not \<open>{15, 35}\<close>.\<close>

theorem uniform_scenario_end_35_counterexample:
  "\<not> (range_start (res_visibleRange (useVirtualization scenario_options (handleScroll 1000 initial_state))) = 15 \<and>
      range_end (res_visibleRange (useVirtualization scenario_options (handleScroll 1000 initial_state))) = 35)"
proof -
  have "hook_itemHeights scenario_options (handleScroll 1000 initial_state) = replicate 1000 50"
    by (simp add: hook_itemHeights_def itemHeights_def scenario_options_def map_replicate_const)
  then have "res_visibleRange (useVirtualization scenario_options (handleScroll 1000 initial_state)) =
     \<lparr>range_start = 15, range_end = 40\<rparr>"
    by (simp add: useVirtualization_def Let_def uniform_range scenario_options_def handleScroll_def
        initial_state_def default_overscan_def default_estimatedItemHeight_def)
  then show ?thesis by simp
qed

subsection \<open>Which height an item gets\<close>

text \<open>
  Claim C2, as the code has it. The height of an item is the uniform \<open>itemHeight\<close> when
  one is configured; else the result of \<open>getItemHeight\<close> when a sizing function is
  configured; else the measured height when one was reported and is not 0; else the
  estimate. A measurement is consulted only when neither of the first two is configured.
\<close>

theorem itemHeights_precedence:
  assumes "index < length its"
  shows "itemHeights its ih gih hs est ! index =
    (case ih of
       Some h \<Rightarrow> h
     | None \<Rightarrow>
        (case gih of
           Some g \<Rightarrow> g (its ! index) index
         | None \<Rightarrow>
            (case hs index of
               Some m \<Rightarrow> if m = 0 then est else m
             | None \<Rightarrow> est)))"
  using assms by (simp add: itemHeights_def or_else_def split: option.splits)

theorem itemHeights_precedence_witness:
  "itemHeights [()] (Some 50) None [0 \<mapsto> 80] 50 ! 0 = 50"
  using itemHeights_precedence [of 0 "[()]" "Some 50" None "[0 \<mapsto> 80]" 50]
  by simp

text \<open>With a uniform height of 50, an item measured at 80 keeps the height 50.\<close>

theorem measured_over_uniform_counterexample:
  "hook_itemHeights (uniform_options 50) (measureItem 0 (Some 80) initial_state) ! 0 \<noteq> 80"
  by (simp add: hook_itemHeights_def itemHeights_def uniform_options_def)

text \<open>
  Claim C9, as the code has it. No height is clamped: every source is used as it is
  given. So the height of an item is non-negative whenever the configured uniform height,
  the result of the sizing function for that item, its measurement and the estimate are
  non-negative; and an item with no measurement gets the estimate when neither a uniform
  height nor a sizing function is configured.
\<close>

theorem extents_as_configured:
  assumes "index < length its"
    and "\<forall>h. ih = Some h \<longrightarrow> 0 \<le> h"
    and "\<forall>g. gih = Some g \<longrightarrow> 0 \<le> g (its ! index) index"
    and "\<forall>h. hs index = Some h \<longrightarrow> 0 \<le> h"
    and "0 \<le> est"
  shows "0 \<le> itemHeights its ih gih hs est ! index \<and>
         (ih = None \<and> gih = None \<and> hs index = None \<longrightarrow>
            itemHeights its ih gih hs est ! index = est)"
  using assms by (auto simp add: itemHeights_def or_else_def split: option.splits)

theorem extents_as_configured_witness:
  "0 \<le> itemHeights [(), ()] None None [0 \<mapsto> 80] 50 ! 1 \<and>
   itemHeights [(), ()] None None [0 \<mapsto> 80] 50 ! 1 = 50"
  using extents_as_configured [of 1 "[(), ()]" None None "[0 \<mapsto> 80]" 50]
  by simp

text \<open>A uniform height of \<open>-5\<close> is the height of the item.\<close>

theorem negative_extent_counterexample:
  "\<not> 0 \<le> hook_itemHeights (uniform_options (- 5)) initial_state ! 0"
  by (simp add: hook_itemHeights_def itemHeights_def uniform_options_def)

lemma zero_measurement_itemHeights:
  assumes "itemHeight opts = None" and "getItemHeight opts = None"
  shows "hook_itemHeights opts (measureItem index (Some 0) s) =
         hook_itemHeights opts (s\<lparr>heights := (heights s)(index := None)\<rparr>)"
  using assms by (simp add: hook_itemHeights_def itemHeights_def measureItem_def or_else_def)

text \<open>
  Claim C10. When neither a uniform height nor a sizing function is configured, reporting
  a measurement of exactly 0 for an index leaves every result of the hook (the visible
  range, the total height, the offset of the window, the visible items) as it is with no
  measurement for that index, and the height of that item is the estimate.
\<close>

theorem zero_measurement_is_unmeasured:
  assumes "itemHeight opts = None" and "getItemHeight opts = None"
  shows "useVirtualization opts (measureItem index (Some 0) s) =
           useVirtualization opts (s\<lparr>heights := (heights s)(index := None)\<rparr>) \<and>
         (index < length (items opts) \<longrightarrow>
            hook_itemHeights opts (measureItem index (Some 0) s) ! index = estimatedItemHeight opts)"
proof
  have "scrollTop (measureItem index (Some 0) s) = scrollTop s"
    by (simp add: measureItem_def)
  then show "useVirtualization opts (measureItem index (Some 0) s) =
           useVirtualization opts (s\<lparr>heights := (heights s)(index := None)\<rparr>)"
    using zero_measurement_itemHeights [OF assms, of index s]
    by (simp add: useVirtualization_def)
  show "index < length (items opts) \<longrightarrow>
            hook_itemHeights opts (measureItem index (Some 0) s) ! index = estimatedItemHeight opts"
    using assms by (simp add: hook_itemHeights_def itemHeights_def measureItem_def or_else_def)
qed

theorem zero_measurement_is_unmeasured_witness:
  "useVirtualization measured_options (measureItem 1 (Some 0) initial_state) =
     useVirtualization measured_options (initial_state\<lparr>heights := (heights initial_state)(1 := None)\<rparr>) \<and>
   hook_itemHeights measured_options (measureItem 1 (Some 0) initial_state) ! 1 = 50"
  using zero_measurement_is_unmeasured [of measured_options 1 initial_state]
  by (simp add: measured_options_def)

subsection \<open>The start of the range\<close>

lemma findStart_nonneg: "0 \<le> findStart hs st ov i acc"
  by (induction hs arbitrary: i acc) simp_all

lemma findStart_lower:
  "acc \<le> st \<Longrightarrow> st < acc + sum_list hs \<Longrightarrow> max 0 (int i - ov) \<le> findStart hs st ov i acc"
proof (induction hs arbitrary: i acc)
  case Nil
  then show ?case by simp
next
  case (Cons h rest)
  show ?case
  proof (cases "acc + h > st")
    case True
    then show ?thesis by simp
  next
    case False
    then have le: "acc + h \<le> st" by simp
    from Cons.prems(2) have "st < (acc + h) + sum_list rest" by (simp add: add.assoc)
    from Cons.IH [OF le this, of "Suc i"]
    have "max 0 (int (Suc i) - ov) \<le> findStart rest st ov (Suc i) (acc + h)" .
    with False show ?thesis by simp
  qed
qed

lemma findStart_mono:
  "s1 \<le> s2 \<Longrightarrow> s2 < acc + sum_list hs \<Longrightarrow>
   findStart hs s1 ov i acc \<le> findStart hs s2 ov i acc"
proof (induction hs arbitrary: i acc)
  case Nil
  then show ?case by simp
next
  case (Cons h rest)
  from Cons.prems(2) have tot: "s2 < (acc + h) + sum_list rest" by (simp add: add.assoc)
  consider (both) "acc + h > s2" | (first) "acc + h \<le> s2" "acc + h > s1" | (none) "acc + h \<le> s1"
    by linarith
  then show ?case
  proof cases
    case both
    with Cons.prems(1) show ?thesis by simp
  next
    case first
    from findStart_lower [OF first(1) tot, of "Suc i" ov]
    have "max 0 (int (Suc i) - ov) \<le> findStart rest s2 ov (Suc i) (acc + h)" .
    with first show ?thesis by simp
  next
    case none
    with Cons.prems(1) have "acc + h \<le> s2" by simp
    with none Cons.IH [OF Cons.prems(1) tot, of "Suc i"] show ?thesis by simp
  qed
qed

lemma findStart_prefix:
  "acc \<le> st \<Longrightarrow>
   findStart hs st 0 i acc = 0 \<or>
   (\<exists>k. findStart hs st 0 i acc = int (i + k) \<and> acc + sum_list (take k hs) \<le> st)"
proof (induction hs arbitrary: i acc)
  case Nil
  then show ?case by simp
next
  case (Cons h rest)
  show ?case
  proof (cases "acc + h > st")
    case True
    with Cons.prems have "findStart (h # rest) st 0 i acc = int (i + 0) \<and> acc + sum_list (take 0 (h # rest)) \<le> st"
      by simp
    then show ?thesis by blast
  next
    case False
    then have le: "acc + h \<le> st" by simp
    from Cons.IH [OF le, of "Suc i"] show ?thesis
    proof
      assume "findStart rest st 0 (Suc i) (acc + h) = 0"
      with False show ?thesis by simp
    next
      assume "\<exists>k. findStart rest st 0 (Suc i) (acc + h) = int (Suc i + k) \<and> acc + h + sum_list (take k rest) \<le> st"
      then obtain k where k: "findStart rest st 0 (Suc i) (acc + h) = int (Suc i + k)"
        "acc + h + sum_list (take k rest) \<le> st" by blast
      with False have "findStart (h # rest) st 0 i acc = int (i + Suc k) \<and> acc + sum_list (take (Suc k) (h # rest)) \<le> st"
        by (simp add: add.assoc)
      then show ?thesis by blast
    qed
  qed
qed

text \<open>Below the total height the start is monotone in the scroll offset, for fixed item
  heights and a fixed overscan: for \<open>s1 \<le> s2 < totalHeight\<close> the start for \<open>s1\<close> is at
  most the start for \<open>s2\<close>.\<close>

lemma start_monotone_below_total:
  assumes "s1 \<le> s2" and "s2 < totalHeight ihs"
  shows "range_start (visibleRange s1 ch ihs ov est n) \<le> range_start (visibleRange s2 ch ihs ov est n)"
  using findStart_mono [of s1 s2 0 ihs ov 0] assms
  by (simp add: visibleRange_def Let_def totalHeight_def reduce_sum_sum_list)

lemma start_monotone_below_total_example:
  "range_start (visibleRange 50 100 [50, 50, 50] 0 50 3) \<le>
   range_start (visibleRange 120 100 [50, 50, 50] 0 50 3)"
  using start_monotone_below_total [of 50 120 "[50, 50, 50]" 100 0 50 3]
  by (simp add: totalHeight_def reduce_sum_def)

text \<open>
  Claim C5. The start of the range is not monotone in the scroll offset at the total
  height: when no item ends beyond the scroll offset, the first loop ends without
  assigning \<open>start\<close>, which keeps its initial value 0. For three items of height 50
  (total height 150) and an overscan of 0, the start is 2 at the offset 100 and 0 at the
  offset 150, where the range is the whole list.
\<close>

theorem start_resets_at_total_height:
  "res_totalHeight (useVirtualization three_uniform (handleScroll 150 initial_state)) = 150 \<and>
   res_visibleRange (useVirtualization three_uniform (handleScroll 100 initial_state)) =
     \<lparr>range_start = 2, range_end = 2\<rparr> \<and>
   res_visibleRange (useVirtualization three_uniform (handleScroll 150 initial_state)) =
     \<lparr>range_start = 0, range_end = 2\<rparr>"
  by (simp add: useVirtualization_def visibleRange_def Let_def hook_itemHeights_def
      itemHeights_def three_uniform_def handleScroll_def initial_state_def totalHeight_def
      reduce_sum_def slice_def)

text \<open>
  Claim C8. For every sequence of item heights and every scroll offset that is not
  negative, the start of the range computed with an overscan of 0 has an offset (the sum
  of the heights before it) of at most the scroll offset. The heights need not be
  non-negative and the offset need not be below the total height for this.
\<close>

theorem start_offset_le_scroll:
  assumes "0 \<le> st"
  shows "offsetY ihs (range_start (visibleRange st ch ihs 0 est n)) \<le> st"
proof -
  have start: "range_start (visibleRange st ch ihs 0 est n) = findStart ihs st 0 0 0"
    by (simp add: visibleRange_def Let_def)
  from findStart_prefix [OF assms, of ihs 0]
  have "offsetY ihs (findStart ihs st 0 0 0) \<le> st"
  proof
    assume "findStart ihs st 0 0 0 = 0"
    with assms show ?thesis by (simp add: offsetY_def slice_0_take reduce_sum_sum_list)
  next
    assume "\<exists>k. findStart ihs st 0 0 0 = int (0 + k) \<and> 0 + sum_list (take k ihs) \<le> st"
    then obtain k where "findStart ihs st 0 0 0 = int k" "sum_list (take k ihs) \<le> st" by auto
    then show ?thesis by (simp add: offsetY_def slice_0_take reduce_sum_sum_list)
  qed
  with start show ?thesis by simp
qed

theorem start_offset_le_scroll_witness:
  "offsetY [50, 50, 50] (range_start (visibleRange 120 100 [50, 50, 50] 0 50 3)) \<le> 120"
  using start_offset_le_scroll [of 120 "[50, 50, 50]" 100 50 3]
  by simp

section \<open>Properties of the load-more effect\<close>

lemma runEffects_fetching:
  "\<forall>d \<in> set ds. isFetchingNextPage d \<Longrightarrow> runEffects prev ds = []"
  by (induction ds arbitrary: prev) (simp_all add: loadMoreEffect_def shouldLoadMore_def)

text \<open>
  Claim C6. With a callback \<open>f\<close> supplied, one run of the effect invokes \<open>f\<close>, once, exactly
  when \<open>items.length - end \<le> loadMoreThreshold\<close>, \<open>hasNextPage\<close> holds and
  \<open>isFetchingNextPage\<close> does not, and invokes nothing otherwise. While
  \<open>isFetchingNextPage\<close> holds, no render invokes the callback, whatever the window is.
  With 100 items, an end of 96 and a threshold of 5 the callback is invoked once, and a
  following render with \<open>isFetchingNextPage\<close> set and the same window invokes nothing.
\<close>

theorem load_more_trigger:
  "(fetchNextPage d = Some f \<longrightarrow>
      (loadMoreEffect d = [f]) =
        (int (items_length d) - visibleRange_end d \<le> loadMoreThreshold d \<and> hasNextPage d \<and>
         \<not> isFetchingNextPage d) \<and>
      (loadMoreEffect d = [f] \<or> loadMoreEffect d = [])) \<and>
   (isFetchingNextPage d \<longrightarrow> loadMoreEffect d = []) \<and>
   ((\<forall>d' \<in> set ds. isFetchingNextPage d') \<longrightarrow> runEffects prev ds = []) \<and>
   loadMoreEffect (near_end f) = [f] \<and>
   runEffects None [near_end f, (near_end f)\<lparr>isFetchingNextPage := True\<rparr>] = [f]"
proof -
  have a: "fetchNextPage d = Some f \<longrightarrow>
      (loadMoreEffect d = [f]) =
        (int (items_length d) - visibleRange_end d \<le> loadMoreThreshold d \<and> hasNextPage d \<and>
         \<not> isFetchingNextPage d) \<and>
      (loadMoreEffect d = [f] \<or> loadMoreEffect d = [])"
    by (auto simp add: loadMoreEffect_def shouldLoadMore_def)
  have b: "isFetchingNextPage d \<longrightarrow> loadMoreEffect d = []"
    by (simp add: loadMoreEffect_def shouldLoadMore_def)
  have c: "(\<forall>d' \<in> set ds. isFetchingNextPage d') \<longrightarrow> runEffects prev ds = []"
    using runEffects_fetching by blast
  have d: "loadMoreEffect (near_end f) = [f]"
    by (simp add: loadMoreEffect_def shouldLoadMore_def near_end_def)
  have e: "runEffects None [near_end f, (near_end f)\<lparr>isFetchingNextPage := True\<rparr>] = [f]"
    by (simp add: loadMoreEffect_def shouldLoadMore_def near_end_def)
  from a b c d e show ?thesis by blast
qed

theorem load_more_trigger_witness:
  "loadMoreEffect (near_end 7) = [7] \<and>
   loadMoreEffect ((near_end 7)\<lparr>isFetchingNextPage := True\<rparr>) = [] \<and>
   runEffects (Some (near_end 7))
     [(near_end 7)\<lparr>isFetchingNextPage := True\<rparr>,
      (near_end 7)\<lparr>isFetchingNextPage := True, visibleRange_end := 99\<rparr>] = [] \<and>
   runEffects None [near_end 7, (near_end 7)\<lparr>isFetchingNextPage := True\<rparr>] = [7]"
  using load_more_trigger [of "near_end 7" 7 "[]" None]
    load_more_trigger [of "(near_end 7)\<lparr>isFetchingNextPage := True\<rparr>" 7
      "[(near_end 7)\<lparr>isFetchingNextPage := True\<rparr>,
        (near_end 7)\<lparr>isFetchingNextPage := True, visibleRange_end := 99\<rparr>]" "Some (near_end 7)"]
  by (simp add: near_end_def)

section \<open>Properties of the column counts\<close>

text \<open>
  Claim C4, as the code has it. When no column count is given and the cell width plus the
  gap is not 0, the column count of the grid and that of the masonry layout are
  \<open>floor ((containerWidth + gap) / (cellWidth + gap))\<close> with no lower bound; the count is
  0 when the container is narrower than one cell.
\<close>

theorem columns_floor_unclamped:
  assumes "cellWidth + gap \<noteq> 0"
  shows "gridDimensions_cols None containerWidth cellWidth gap =
           Num (of_int \<lfloor>(containerWidth + gap) / (cellWidth + gap)\<rfloor>) \<and>
         columns containerWidth cellWidth gap =
           Num (of_int \<lfloor>(containerWidth + gap) / (cellWidth + gap)\<rfloor>) \<and>
         (0 \<le> gap \<and> 0 \<le> containerWidth \<and> containerWidth < cellWidth \<longrightarrow>
            gridDimensions_cols None containerWidth cellWidth gap = Num 0 \<and>
            columns containerWidth cellWidth gap = Num 0)"
proof -
  have fl: "gridDimensions_cols None containerWidth cellWidth gap =
           Num (of_int \<lfloor>(containerWidth + gap) / (cellWidth + gap)\<rfloor>)"
    "columns containerWidth cellWidth gap =
           Num (of_int \<lfloor>(containerWidth + gap) / (cellWidth + gap)\<rfloor>)"
    using assms by (simp_all add: gridDimensions_cols_def columns_def js_div_def)
  have "\<lfloor>(containerWidth + gap) / (cellWidth + gap)\<rfloor> = 0"
    if "0 \<le> gap" "0 \<le> containerWidth" "containerWidth < cellWidth"
  proof -
    from that have pos: "0 < cellWidth + gap" by simp
    from that have "0 \<le> (containerWidth + gap) / (cellWidth + gap)" by simp
    moreover from that pos have "(containerWidth + gap) / (cellWidth + gap) < 1" by simp
    ultimately show ?thesis by (simp add: floor_eq_iff)
  qed
  with fl show ?thesis by simp
qed

theorem columns_floor_unclamped_witness:
  "gridDimensions_cols None 50 100 0 = Num 0 \<and> columns 50 100 0 = Num 0"
proof -
  have ne: "(100::rat) + 0 \<noteq> 0" by simp
  have narrow: "(0::rat) \<le> 0 \<and> (0::rat) \<le> 50 \<and> (50::rat) < 100" by simp
  from columns_floor_unclamped [OF ne, of 50] narrow show ?thesis by blast
qed

text \<open>A container of width 50 and cells of width 100: the count is not
  \<open>max 1 (floor (50 / 100))\<close>.\<close>

theorem columns_minimum_one_counterexample:
  "\<not> (gridDimensions_cols None 50 100 0 = Num (of_int (max 1 \<lfloor>(50 + 0) / (100 + 0) :: rat\<rfloor>)) \<and>
      columns 50 100 0 = Num (of_int (max 1 \<lfloor>(50 + 0) / (100 + 0) :: rat\<rfloor>)))"
proof -
  have "\<lfloor>(1::rat) / 2\<rfloor> = 0" by (simp add: floor_eq_iff)
  then show ?thesis by (simp add: columns_def js_div_def)
qed

section \<open>Properties of the masonry layout\<close>











text \<open>
  Claim C3. The filter of the visible items reads \<open>containerHeight\<close>, which is not a
  parameter of the hook and has no binding in the module: for every input, computing the
  visible items throws a ReferenceError, and so does the render of the hook.
\<close>

theorem masonry_visibleItems_throws:
  "masonry_visibleItems module_scope its positions st ov = Inl (ReferenceError ''containerHeight'') \<and>
   useMasonryVirtualization module_scope its columnWidth containerWidth gap ov st positions =
     Inl (ReferenceError ''containerHeight'')"
  by (simp add: masonry_visibleItems_def useMasonryVirtualization_def module_scope_def)

lemma inView_iff:
  "inView st cb ov p \<longleftrightarrow>
     (\<exists>pos y. p = Some pos \<and> pos_y pos = Num y \<and>
        y + pos_height pos \<ge> st - of_int ov * 100 \<and> y \<le> cb + of_int ov * 100)"
  by (cases p) (auto simp add: inView_def split: jsnum.splits)

text \<open>Where the enclosing scope does bind \<open>containerHeight\<close>, an item is kept exactly when
  it has a position with a numeric \<open>y\<close> and \<open>[y, y + height]\<close> meets
  \<open>[scrollTop - overscan * 100, scrollTop + containerHeight + overscan * 100]\<close>.\<close>

lemma masonry_visibleItems_bound:
  assumes "outer ''containerHeight'' = Some ch"
    and "masonry_visibleItems outer its positions st ov = Inr vis"
  shows "(item, index, p) \<in> set vis \<longleftrightarrow>
     index < length its \<and> item = its ! index \<and> index < length positions \<and>
     p = Some (positions ! index) \<and>
     (\<exists>y. pos_y (positions ! index) = Num y \<and>
          y + pos_height (positions ! index) \<ge> st - of_int ov * 100 \<and>
          y \<le> st + ch + of_int ov * 100)"
proof -
  have vis: "vis = filter (\<lambda>(item, index, p). inView st (st + ch) ov p)
                (map (\<lambda>(item, index). (item, index, position_at positions index))
                   (zip its [0..<length its]))"
    using assms by (simp add: masonry_visibleItems_def Let_def)
  have mem: "(item, index, p) \<in> set (map (\<lambda>(item, index). (item, index, position_at positions index))
                   (zip its [0..<length its])) \<longleftrightarrow>
             index < length its \<and> item = its ! index \<and> p = position_at positions index"
  proof -
    have zip: "(a, i) \<in> set (zip its [0..<length its]) \<longleftrightarrow> i < length its \<and> a = its ! i" for a i
      by (auto simp add: set_zip)
    have "(item, index, p) \<in> (\<lambda>(item, index). (item, index, position_at positions index)) `
            set (zip its [0..<length its]) \<longleftrightarrow>
          (item, index) \<in> set (zip its [0..<length its]) \<and> p = position_at positions index"
      by force
    then show ?thesis by (simp add: zip)
  qed
  have "(item, index, p) \<in> set vis \<longleftrightarrow>
        inView st (st + ch) ov p \<and> index < length its \<and> item = its ! index \<and>
        p = position_at positions index"
    unfolding vis using mem by auto
  then show ?thesis
    by (auto simp add: inView_iff position_at_def split: if_splits)
qed

end
